theory Spec2Isabelle
  imports Main
begin

section \<open>Python values, exceptions and strings\<close>

text \<open>
  The Bulk class of \<^verbatim>\<open>pyeloqua/bulk.py\<close> works on parsed JSON: dictionaries, lists,
  strings, numbers, booleans and \<^verbatim>\<open>None\<close>. A dictionary is an association list in
  insertion order. JSON numbers are restricted to integers.
\<close>

datatype json =
    JNull
  | JBool bool
  | JNum int
  | JStr string
  | JArr "json list"
  | JObj "(string \<times> json) list"

text \<open>
  The exceptions the code can raise. \<open>Exception msg\<close> is the plain
  \<^verbatim>\<open>raise Exception(msg)\<close> of the source; the others are the built-in exceptions
  Python raises by itself. \<open>RemoteError\<close> is what \<^verbatim>\<open>_elq_error_\<close> raises.
\<close>

datatype exn =
    Exception string
  | TypeError
  | KeyError string
  | IndexError
  | AttributeError
  | ValueError
  | UnboundLocalError string
  | RemoteError int string

subsection \<open>Decimal rendering: \<^verbatim>\<open>str(n)\<close>\<close>

definition digit_char :: "nat \<Rightarrow> char" where
  "digit_char d = ''0123456789'' ! d"

fun str_nat :: "nat \<Rightarrow> string" where
  "str_nat n = (if n < 10 then [digit_char n] else str_nat (n div 10) @ [digit_char (n mod 10)])"

declare str_nat.simps [simp del]

definition str_int :: "int \<Rightarrow> string" where
  "str_int i = (if i < 0 then CHR ''-'' # str_nat (nat (- i)) else str_nat (nat i))"

subsection \<open>\<^verbatim>\<open>str.replace(old, new)\<close>\<close>

text \<open>
  Python scans from the left; at a position where \<open>old\<close> starts it emits \<open>new\<close> and
  continues after the occurrence, so occurrences do not overlap. With an empty \<open>old\<close>
  it puts \<open>new\<close> before every character and at the end.
\<close>

fun replace_from :: "string \<Rightarrow> string \<Rightarrow> string \<Rightarrow> string" where
  "replace_from old new [] = []"
| "replace_from old new (c # cs) =
     (if old \<noteq> [] \<and> take (length old) (c # cs) = old
      then new @ replace_from old new (drop (length old) (c # cs))
      else c # replace_from old new cs)"

definition py_replace :: "string \<Rightarrow> string \<Rightarrow> string \<Rightarrow> string" where
  "py_replace s old new =
     (if old = [] then new @ concat (map (\<lambda>c. c # new) s) else replace_from old new s)"

subsection \<open>\<^verbatim>\<open>str(v)\<close> and \<^verbatim>\<open>repr(v)\<close> of a parsed JSON value (Python 3, ASCII)\<close>

definition hex_char :: "nat \<Rightarrow> char" where
  "hex_char d = ''0123456789abcdef'' ! d"

definition repr_char :: "char \<Rightarrow> char \<Rightarrow> string" where
  "repr_char q c =
     (if c = q \<or> c = CHR 0x5C then [CHR 0x5C, c]
      else if c = CHR 0x09 then [CHR 0x5C, CHR ''t'']
      else if c = CHR 0x0A then [CHR 0x5C, CHR ''n'']
      else if c = CHR 0x0D then [CHR 0x5C, CHR ''r'']
      else if of_char c < (32::nat) \<or> of_char c = (127::nat)
        then [CHR 0x5C, CHR ''x'', hex_char (of_char c div 16), hex_char (of_char c mod 16)]
      else [c])"

definition repr_str :: "string \<Rightarrow> string" where
  "repr_str s =
     (let q = (if CHR 0x27 \<in> set s \<and> CHR 0x22 \<notin> set s then CHR 0x22 else CHR 0x27)
      in q # concat (map (repr_char q) s) @ [q])"

fun join :: "string \<Rightarrow> string list \<Rightarrow> string" where
  "join sep [] = []"
| "join sep [x] = x"
| "join sep (x # y # ys) = x @ sep @ join sep (y # ys)"

fun py_repr :: "json \<Rightarrow> string" where
  "py_repr JNull = ''None''"
| "py_repr (JBool b) = (if b then ''True'' else ''False'')"
| "py_repr (JNum n) = str_int n"
| "py_repr (JStr s) = repr_str s"
| "py_repr (JArr xs) = ''['' @ join '', '' (map py_repr xs) @ '']''"
| "py_repr (JObj kvs) =
     ''{'' @ join '', '' (map (\<lambda>kv. repr_str (fst kv) @ '': '' @ py_repr (snd kv)) kvs) @ ''}''"

text \<open>What \<^verbatim>\<open>'%s' % v\<close> and \<^verbatim>\<open>'{x}'.format(x=v)\<close> insert for \<open>v\<close>.\<close>

fun py_str :: "json \<Rightarrow> string" where
  "py_str (JStr s) = s"
| "py_str v = py_repr v"

definition str_opt_int :: "int option \<Rightarrow> string" where
  "str_opt_int v = (case v of None \<Rightarrow> ''None'' | Some i \<Rightarrow> str_int i)"

definition str_opt_str :: "string option \<Rightarrow> string" where
  "str_opt_str v = (case v of None \<Rightarrow> ''None'' | Some s \<Rightarrow> s)"

subsection \<open>Subscription, iteration, truth value\<close>

text \<open>\<^verbatim>\<open>v[k]\<close> with a string key: only a dictionary accepts it.\<close>

fun py_getitem :: "json \<Rightarrow> string \<Rightarrow> exn + json" where
  "py_getitem (JObj kvs) k = (case map_of kvs k of None \<Rightarrow> Inl (KeyError k) | Some v \<Rightarrow> Inr v)"
| "py_getitem v k = Inl TypeError"

text \<open>\<^verbatim>\<open>v[0]\<close>: a parsed JSON dictionary has string keys only, so \<open>0\<close> is never a key.\<close>

fun py_first :: "json \<Rightarrow> exn + json" where
  "py_first (JArr []) = Inl IndexError"
| "py_first (JArr (x # xs)) = Inr x"
| "py_first (JStr []) = Inl IndexError"
| "py_first (JStr (c # cs)) = Inr (JStr [c])"
| "py_first (JObj kvs) = Inl (KeyError ''0'')"
| "py_first v = Inl TypeError"

text \<open>The elements \<^verbatim>\<open>list.extend(v)\<close> appends.\<close>

fun py_iter :: "json \<Rightarrow> exn + json list" where
  "py_iter (JArr xs) = Inr xs"
| "py_iter (JStr s) = Inr (map (\<lambda>c. JStr [c]) s)"
| "py_iter (JObj kvs) = Inr (map (\<lambda>kv. JStr (fst kv)) kvs)"
| "py_iter v = Inl TypeError"

fun truthy :: "json \<Rightarrow> bool" where
  "truthy JNull = False"
| "truthy (JBool b) = b"
| "truthy (JNum n) = (n \<noteq> 0)"
| "truthy (JStr s) = (s \<noteq> [])"
| "truthy (JArr xs) = (xs \<noteq> [])"
| "truthy (JObj kvs) = (kvs \<noteq> [])"

text \<open>\<^verbatim>\<open>d[k] = v\<close>: an existing key keeps its place, a new key goes last.\<close>

fun dict_set :: "string \<Rightarrow> json \<Rightarrow> (string \<times> json) list \<Rightarrow> (string \<times> json) list" where
  "dict_set k v [] = [(k, v)]"
| "dict_set k v (p # ps) = (if fst p = k then (k, v) # ps else p # dict_set k v ps)"

section \<open>The job, the object store and the network\<close>

text \<open>
  Field definitions are dictionaries that the code shares and mutates
  (\<^verbatim>\<open>field['statement'] = ...\<close>), so they live in a store: a reference is an index
  into the list of allocated objects, and \<open>job_fields\<close> (the key \<^verbatim>\<open>'fields'\<close> of
  the job; \<open>fields\<close> is taken in Isabelle's records) holds references.
\<close>

type_synonym ref = nat

record job =
  filters :: "string list"
  job_fields :: "ref list"
  job_type :: "string option"
  elq_object :: "string option"
  obj_id :: "int option"
  act_type :: "string option"
  options :: "(string \<times> json) list"

definition BLANK_JOB :: job where
  "BLANK_JOB = \<lparr>filters = [], job_fields = [], job_type = None, elq_object = None,
     obj_id = None, act_type = None, options = []\<rparr>"

definition OBJECT_REQ_ID :: "string list" where
  "OBJECT_REQ_ID = [''customobjects'', ''events'']"

definition OBJECT_REQ_TYPE :: "string list" where
  "OBJECT_REQ_TYPE = [''activities'']"

definition ELQ_OBJECTS :: "string list" where
  "ELQ_OBJECTS = [''accounts'', ''activities'', ''contacts'', ''customobjects'',
     ''emailaddresses'', ''events'']"

text \<open>
  The state of a session: the job, the store, and the URLs passed to
  \<^verbatim>\<open>requests.get\<close> so far, oldest first.
\<close>

record world =
  job :: job
  heap :: "json list"
  requests :: "string list"

record response =
  ok :: bool
  status_code :: int
  message :: string
  body :: json

text \<open>
  What the Bulk object is given from outside this file: the base URL, the server
  (\<open>get\<close> answers a URL, and may depend on the requests made before), and the three
  tables of \<^verbatim>\<open>system_fields.py\<close>, whose dictionaries are allocated in the store when
  the module is loaded. \<open>ACTIVITY_FIELDS\<close> is keyed by activity type.
\<close>

record env =
  bulk_base :: string
  get :: "string list \<Rightarrow> string \<Rightarrow> response"
  ACTIVITY_FIELDS :: "(string \<times> ref list) list"
  CONTACT_SYSTEM_FIELDS :: "ref list"
  ACCOUNT_SYSTEM_FIELDS :: "ref list"

text \<open>
  Modelled from the spec: \<^verbatim>\<open>_elq_error_\<close> of \<^verbatim>\<open>error_handling.py\<close>, which is not
  among the sources. The spec describes it as the function that raises a RemoteError
  carrying the vendor's status code and message when the response is not a success.
\<close>

definition elq_error :: "response \<Rightarrow> exn + unit" where
  "elq_error req = (if ok req then Inr () else Inl (RemoteError (status_code req) (message req)))"

section \<open>Job setup\<close>

definition reset :: "world \<Rightarrow> world" where
  "reset w = w\<lparr>job := BLANK_JOB\<rparr>"

text \<open>
  \<^verbatim>\<open>_setup_\<close>. The message of the first check is built with
  \<^verbatim>\<open>'invalid elq_object \'$s\'' % elq_object\<close>: the template has no conversion
  specifier, so the \<^verbatim>\<open>%\<close> operator raises TypeError (not all arguments converted)
  before the Exception is constructed.
\<close>

definition bulk_setup ::
  "string \<Rightarrow> string \<Rightarrow> int option \<Rightarrow> string option \<Rightarrow> world \<Rightarrow> (exn + unit) \<times> world" where
  "bulk_setup jt obj oid act w =
     (if obj \<notin> set ELQ_OBJECTS then (Inl TypeError, w)
      else if obj \<in> set OBJECT_REQ_ID \<and> oid = None
        then (Inl (Exception (''obj_id required for '' @ [CHR 0x27] @ obj @ [CHR 0x27])), w)
      else if obj \<in> set OBJECT_REQ_TYPE \<and> act = None
        then (Inl (Exception (''act_type required for '' @ [CHR 0x27] @ obj @ [CHR 0x27])), w)
      else (Inr (), w\<lparr>job := (job w)\<lparr>job_type := Some jt, elq_object := Some obj,
                                     obj_id := oid, act_type := act\<rparr>\<rparr>))"

definition bulk_imports :: "string \<Rightarrow> int option \<Rightarrow> string option \<Rightarrow> world \<Rightarrow> (exn + unit) \<times> world" where
  "bulk_imports obj oid act w = bulk_setup ''imports'' obj oid act w"

definition bulk_exports :: "string \<Rightarrow> int option \<Rightarrow> string option \<Rightarrow> world \<Rightarrow> (exn + unit) \<times> world" where
  "bulk_exports obj oid act w = bulk_setup ''exports'' obj oid act w"

section \<open>Field catalog: \<^verbatim>\<open>get_fields\<close>\<close>

text \<open>
  The part of the URL before \<^verbatim>\<open>'&offset={offset}'\<close>. \<^verbatim>\<open>str.format\<close> renders a
  missing object or id as \<^verbatim>\<open>None\<close>.
\<close>

definition fields_url_base :: "env \<Rightarrow> string option \<Rightarrow> int option \<Rightarrow> string" where
  "fields_url_base env obj oid =
     (if (case obj of None \<Rightarrow> False | Some ob \<Rightarrow> ob \<in> set OBJECT_REQ_ID)
      then bulk_base env @ ''/'' @ str_opt_str obj @ ''/'' @ str_opt_int oid @ ''/fields?limit=1000''
      else bulk_base env @ ''/'' @ str_opt_str obj @ ''/fields?limit=1000'')"

text \<open>
  \<^verbatim>\<open>url_base.format(offset=offset)\<close> formats the whole URL, base and object name
  included. The model covers a prefix without braces, where the only replacement field
  is the offset. Braces in the prefix would be read by Python as further replacement
  fields or escapes; the model stops there with ValueError, and the theorems about
  requests assume a prefix without braces.
\<close>

definition brace_free :: "string \<Rightarrow> bool" where
  "brace_free s = (CHR 0x7B \<notin> set s \<and> CHR 0x7D \<notin> set s)"

definition offset_url :: "string \<Rightarrow> nat \<Rightarrow> string" where
  "offset_url url_base offset = url_base @ ''&offset='' @ str_nat offset"

definition format_offset :: "string \<Rightarrow> nat \<Rightarrow> exn + string" where
  "format_offset url_base offset =
     (if brace_free url_base then Inr (offset_url url_base offset) else Inl ValueError)"

text \<open>
  \<^verbatim>\<open>requests.get(url=url, auth=self.auth)\<close>: the server answers, and the URL is
  recorded.
\<close>

definition requests_get :: "env \<Rightarrow> string \<Rightarrow> world \<Rightarrow> response \<times> world" where
  "requests_get env url w = (get env (requests w) url, w\<lparr>requests := requests w @ [url]\<rparr>)"

text \<open>Parsed objects are new objects: they go to the end of the store.\<close>

definition alloc :: "json list \<Rightarrow> world \<Rightarrow> ref list \<times> world" where
  "alloc vs w = ([length (heap w) ..< length (heap w) + length vs], w\<lparr>heap := heap w @ vs\<rparr>)"

text \<open>
  The \<^verbatim>\<open>while has_more\<close> loop of \<^verbatim>\<open>get_fields\<close>. It runs for as long as the
  server reports more pages, so it is a partial function: \<open>None\<close> is a loop that
  never ends. An exception leaves the loop with the state reached so far.
\<close>

partial_function (option) get_fields_loop ::
  "env \<Rightarrow> string \<Rightarrow> nat \<Rightarrow> ref list \<Rightarrow> world \<Rightarrow> ((exn + ref list) \<times> world) option" where
  "get_fields_loop env url_base offset flds w =
     (case format_offset url_base offset of
        Inl e \<Rightarrow> Some (Inl e, w)
      | Inr url \<Rightarrow>
          (case requests_get env url w of (req, w1) \<Rightarrow>
            (case elq_error req of
               Inl e \<Rightarrow> Some (Inl e, w1)
             | Inr u \<Rightarrow>
                 (case py_getitem (body req) ''items'' of
                    Inl e \<Rightarrow> Some (Inl e, w1)
                  | Inr items \<Rightarrow>
                      (case py_iter items of
                         Inl e \<Rightarrow> Some (Inl e, w1)
                       | Inr vs \<Rightarrow>
                           (case alloc vs w1 of (refs, w2) \<Rightarrow>
                             (case py_getitem (body req) ''hasMore'' of
                                Inl e \<Rightarrow> Some (Inl e, w2)
                              | Inr has_more \<Rightarrow>
                                  (if truthy has_more
                                   then get_fields_loop env url_base (offset + 1) (flds @ refs) w2
                                   else Some (Inr (flds @ refs), w2)))))))))"

declare get_fields_loop.simps [code]

text \<open>
  \<^verbatim>\<open>get_fields\<close>. For activities the result is the list stored in the table
  \<^verbatim>\<open>ACTIVITY_FIELDS\<close>; a missing activity type (\<^verbatim>\<open>None\<close> is not a key of the table)
  or an unknown one is a KeyError.
\<close>

definition get_fields ::
  "env \<Rightarrow> string option \<Rightarrow> int option \<Rightarrow> string option \<Rightarrow> world
     \<Rightarrow> ((exn + ref list) \<times> world) option" where
  "get_fields env obj oid act w =
     (case (if obj = None then (elq_object (job w), obj_id (job w), act_type (job w))
            else (obj, oid, act)) of
        (obj1, oid1, act1) \<Rightarrow>
          if obj1 = Some ''activities'' then
            (case act1 of
               None \<Rightarrow> Some (Inl (KeyError ''None''), w)
             | Some a \<Rightarrow>
                 (case map_of (ACTIVITY_FIELDS env) a of
                    None \<Rightarrow> Some (Inl (KeyError a), w)
                  | Some rs \<Rightarrow> Some (Inr rs, w)))
          else get_fields_loop env (fields_url_base env obj1 oid1) 0 [] w)"

section \<open>Field resolution\<close>

text \<open>
  The test of the inner loops. With \<open>by_internal\<close> it is
  \<^verbatim>\<open>field_name == field['internalName'] or field_name == field['name']\<close>, where
  \<^verbatim>\<open>or\<close> does not look at the name when the internal name matches; without it,
  \<^verbatim>\<open>field_name == field['name']\<close>.
\<close>

definition field_matches :: "json list \<Rightarrow> bool \<Rightarrow> string \<Rightarrow> ref \<Rightarrow> exn + bool" where
  "field_matches h by_internal field_name r =
     (if by_internal then
        (case py_getitem (h ! r) ''internalName'' of
           Inl e \<Rightarrow> Inl e
         | Inr v \<Rightarrow>
             if JStr field_name = v then Inr True
             else (case py_getitem (h ! r) ''name'' of
                     Inl e \<Rightarrow> Inl e
                   | Inr v2 \<Rightarrow> Inr (JStr field_name = v2)))
      else
        (case py_getitem (h ! r) ''name'' of
           Inl e \<Rightarrow> Inl e
         | Inr v \<Rightarrow> Inr (JStr field_name = v)))"

text \<open>The inner loop \<^verbatim>\<open>for field in fields\<close>, with \<open>fields_output\<close> and \<open>match\<close>.\<close>

fun scan_fields ::
  "json list \<Rightarrow> bool \<Rightarrow> string \<Rightarrow> ref list \<Rightarrow> ref list \<Rightarrow> bool \<Rightarrow> exn + (ref list \<times> bool)" where
  "scan_fields h by_internal field_name [] fields_output match = Inr (fields_output, match)"
| "scan_fields h by_internal field_name (r # rs) fields_output match =
     (case field_matches h by_internal field_name r of
        Inl e \<Rightarrow> Inl e
      | Inr hit \<Rightarrow>
          if hit then scan_fields h by_internal field_name rs (fields_output @ [r]) True
          else scan_fields h by_internal field_name rs fields_output match)"

text \<open>The outer loop \<^verbatim>\<open>for field_name in field_input\<close>.\<close>

fun resolve_names ::
  "json list \<Rightarrow> bool \<Rightarrow> ref list \<Rightarrow> string list \<Rightarrow> ref list \<Rightarrow> exn + ref list" where
  "resolve_names h by_internal flds [] fields_output = Inr fields_output"
| "resolve_names h by_internal flds (field_name # names) fields_output =
     (case scan_fields h by_internal field_name flds fields_output False of
        Inl e \<Rightarrow> Inl e
      | Inr (out, match) \<Rightarrow>
          if \<not> match then Inl (Exception (''field not found: '' @ field_name))
          else resolve_names h by_internal flds names out)"

definition extend_fields :: "ref list \<Rightarrow> world \<Rightarrow> world" where
  "extend_fields rs w = w\<lparr>job := (job w)\<lparr>job_fields := job_fields (job w) @ rs\<rparr>\<rparr>"

text \<open>
  \<^verbatim>\<open>add_fields\<close> returns \<^verbatim>\<open>True\<close> when no names are given and \<^verbatim>\<open>None\<close> otherwise:
  the result is \<open>Some True\<close> or \<open>None\<close>.
\<close>

definition add_fields ::
  "env \<Rightarrow> string list option \<Rightarrow> world \<Rightarrow> ((exn + bool option) \<times> world) option" where
  "add_fields env field_input w =
     (case get_fields env None None None w of
        None \<Rightarrow> None
      | Some (Inl e, w1) \<Rightarrow> Some (Inl e, w1)
      | Some (Inr flds, w1) \<Rightarrow>
          (case field_input of
             None \<Rightarrow> Some (Inr (Some True), extend_fields flds w1)
           | Some names \<Rightarrow>
               (case resolve_names (heap w1) (elq_object (job w1) \<noteq> Some ''activities'')
                       flds names [] of
                  Inl e \<Rightarrow> Some (Inl e, w1)
                | Inr fields_output \<Rightarrow> Some (Inr None, extend_fields fields_output w1))))"

text \<open>
  \<^verbatim>\<open>add_system_fields\<close>. \<open>fieldset\<close> is assigned only for contacts and accounts.
  Otherwise it is unbound, and the first statement that reads it raises
  UnboundLocalError: \<^verbatim>\<open>extend(fieldset)\<close> when no names are given, the inner
  \<^verbatim>\<open>for field in fieldset\<close> when there is a first name; with an empty list of names
  nothing reads it.
\<close>

definition add_system_fields ::
  "env \<Rightarrow> string list option \<Rightarrow> world \<Rightarrow> (exn + bool option) \<times> world" where
  "add_system_fields env field_input w =
     (let fieldset =
            (if elq_object (job w) = Some ''contacts'' then Some (CONTACT_SYSTEM_FIELDS env)
             else if elq_object (job w) = Some ''accounts'' then Some (ACCOUNT_SYSTEM_FIELDS env)
             else None)
      in case field_input of
           None \<Rightarrow>
             (case fieldset of
                None \<Rightarrow> (Inl (UnboundLocalError ''fieldset''), w)
              | Some fs \<Rightarrow> (Inr (Some True), extend_fields fs w))
         | Some names \<Rightarrow>
             (case (case fieldset of
                      None \<Rightarrow> (if names = [] then Inr [] else Inl (UnboundLocalError ''fieldset''))
                    | Some fs \<Rightarrow> resolve_names (heap w) False fs names []) of
                Inl e \<Rightarrow> (Inl e, w)
              | Inr fields_output \<Rightarrow> (Inr None, extend_fields fields_output w)))"

section \<open>Linked fields\<close>

text \<open>
  \<^verbatim>\<open>field['statement'] = field['statement'].replace(old, new)\<close> on the object at
  \<open>r\<close>: the dictionary is changed in place. A statement that is not a string has no
  \<^verbatim>\<open>replace\<close>.
\<close>

definition replace_statement :: "json list \<Rightarrow> ref \<Rightarrow> string \<Rightarrow> string \<Rightarrow> exn + json list" where
  "replace_statement h r old new =
     (case h ! r of
        JObj kvs \<Rightarrow>
          (case map_of kvs ''statement'' of
             None \<Rightarrow> Inl (KeyError ''statement'')
           | Some (JStr s) \<Rightarrow> Inr (h[r := JObj (dict_set ''statement'' (JStr (py_replace s old new)) kvs)])
           | Some v \<Rightarrow> Inl AttributeError)
      | v \<Rightarrow> Inl TypeError)"

text \<open>The body of \<^verbatim>\<open>for field in fields_output\<close>.\<close>

definition rewrite_field ::
  "string \<Rightarrow> string option \<Rightarrow> int option \<Rightarrow> json list \<Rightarrow> ref \<Rightarrow> exn + json list" where
  "rewrite_field lnk_obj cur oid h r =
     (if lnk_obj = ''contacts'' then
        (if cur = Some ''customobjects'' then
           replace_statement h r ''Contact.'' (''CustomObject['' @ str_opt_int oid @ ''].Contact.'')
         else if cur = Some ''events'' then
           replace_statement h r ''Contact.'' (''Event['' @ str_opt_int oid @ ''].Contact.'')
         else Inr h)
      else if lnk_obj = ''accounts'' then
        replace_statement h r ''Account.'' ''Contact.Account.''
      else Inr h)"

text \<open>The loop: an exception keeps the rewrites made before it.\<close>

fun rewrite_fields ::
  "string \<Rightarrow> string option \<Rightarrow> int option \<Rightarrow> json list \<Rightarrow> ref list \<Rightarrow> (exn + unit) \<times> json list" where
  "rewrite_fields lnk_obj cur oid h [] = (Inr (), h)"
| "rewrite_fields lnk_obj cur oid h (r # rs) =
     (case rewrite_field lnk_obj cur oid h r of
        Inl e \<Rightarrow> (Inl e, h)
      | Inr h1 \<Rightarrow> rewrite_fields lnk_obj cur oid h1 rs)"

definition add_linked_fields ::
  "env \<Rightarrow> string \<Rightarrow> string list \<Rightarrow> world \<Rightarrow> ((exn + unit) \<times> world) option" where
  "add_linked_fields env lnk_obj field_input w =
     (case get_fields env (Some lnk_obj) None None w of
        None \<Rightarrow> None
      | Some (Inl e, w1) \<Rightarrow> Some (Inl e, w1)
      | Some (Inr flds, w1) \<Rightarrow>
          (case resolve_names (heap w1) True flds field_input [] of
             Inl e \<Rightarrow> Some (Inl e, w1)
           | Inr fields_output \<Rightarrow>
               (case rewrite_fields lnk_obj (elq_object (job w1)) (obj_id (job w1)) (heap w1)
                       fields_output of
                  (Inl e, h) \<Rightarrow> Some (Inl e, w1\<lparr>heap := h\<rparr>)
                | (Inr u, h) \<Rightarrow> Some (Inr (), extend_fields fields_output (w1\<lparr>heap := h\<rparr>)))))"

section \<open>Lead score fields and list filters\<close>

definition wildcard :: "string \<Rightarrow> string" where
  "wildcard name = py_replace name '' '' ''*''"

definition model_url :: "env \<Rightarrow> int \<Rightarrow> string" where
  "model_url env m = bulk_base env @ ''/contacts/scoring/models/'' @ str_int m"

definition model_search_url :: "env \<Rightarrow> string \<Rightarrow> string" where
  "model_search_url env n =
     bulk_base env @ ''/contacts/scoring/models?q='' @ [CHR 0x22] @ ''name='' @ wildcard n @ [CHR 0x22]"

definition add_leadscore_fields ::
  "env \<Rightarrow> int option \<Rightarrow> string option \<Rightarrow> world \<Rightarrow> (exn + unit) \<times> world" where
  "add_leadscore_fields env model_id name w =
     (case model_id of
        Some m \<Rightarrow>
          (case requests_get env (model_url env m) w of
             (req, w1) \<Rightarrow>
               (case elq_error req of
                  Inl e \<Rightarrow> (Inl e, w1)
                | Inr u \<Rightarrow>
                    (case py_getitem (body req) ''fields'' of
                       Inl e \<Rightarrow> (Inl e, w1)
                     | Inr fs \<Rightarrow>
                         (case py_iter fs of
                            Inl e \<Rightarrow> (Inl e, w1)
                          | Inr vs \<Rightarrow>
                              (case alloc vs w1 of (refs, w2) \<Rightarrow> (Inr (), extend_fields refs w2))))))
      | None \<Rightarrow>
          (case name of
             Some n \<Rightarrow>
               (case requests_get env (model_search_url env n) w of
                  (req, w1) \<Rightarrow>
                    (case elq_error req of
                       Inl e \<Rightarrow> (Inl e, w1)
                     | Inr u \<Rightarrow>
                         (case py_getitem (body req) ''items'' of
                            Inl e \<Rightarrow> (Inl e, w1)
                          | Inr items \<Rightarrow>
                              (case py_first items of
                                 Inl e \<Rightarrow> (Inl e, w1)
                               | Inr m \<Rightarrow>
                                   (case py_getitem m ''fields'' of
                                      Inl e \<Rightarrow> (Inl e, w1)
                                    | Inr fs \<Rightarrow>
                                        (case py_iter fs of
                                           Inl e \<Rightarrow> (Inl e, w1)
                                         | Inr vs \<Rightarrow>
                                             (case alloc vs w1 of
                                                (refs, w2) \<Rightarrow> (Inr (), extend_fields refs w2))))))))
           | None \<Rightarrow> (Inl (Exception ''model_id or name required''), w)))"

text \<open>\<^verbatim>\<open>" EXISTS('{statement}') ".format(statement=v)\<close>\<close>

definition exists_temp :: "json \<Rightarrow> string" where
  "exists_temp v = '' EXISTS('' @ [CHR 0x27] @ py_str v @ [CHR 0x27] @ '') ''"

definition append_filter :: "string \<Rightarrow> world \<Rightarrow> world" where
  "append_filter f w = w\<lparr>job := (job w)\<lparr>filters := filters (job w) @ [f]\<rparr>\<rparr>"

definition list_url :: "env \<Rightarrow> string option \<Rightarrow> int \<Rightarrow> string" where
  "list_url env obj l = bulk_base env @ ''/'' @ str_opt_str obj @ ''/lists/'' @ str_int l"

definition list_search_url :: "env \<Rightarrow> string option \<Rightarrow> string \<Rightarrow> string" where
  "list_search_url env obj n =
     bulk_base env @ ''/'' @ str_opt_str obj @ ''/lists?q='' @ [CHR 0x22] @ ''name='' @ wildcard n
       @ [CHR 0x22]"

definition filter_exists_list ::
  "env \<Rightarrow> int option \<Rightarrow> string option \<Rightarrow> world \<Rightarrow> (exn + unit) \<times> world" where
  "filter_exists_list env list_id name w =
     (case list_id of
        Some l \<Rightarrow>
          (case requests_get env (list_url env (elq_object (job w)) l) w of
             (req, w1) \<Rightarrow>
               (case elq_error req of
                  Inl e \<Rightarrow> (Inl e, w1)
                | Inr u \<Rightarrow>
                    (case py_getitem (body req) ''statement'' of
                       Inl e \<Rightarrow> (Inl e, w1)
                     | Inr st \<Rightarrow> (Inr (), append_filter (exists_temp st) w1))))
      | None \<Rightarrow>
          (case name of
             Some n \<Rightarrow>
               (case requests_get env (list_search_url env (elq_object (job w)) n) w of
                  (req, w1) \<Rightarrow>
                    (case elq_error req of
                       Inl e \<Rightarrow> (Inl e, w1)
                     | Inr u \<Rightarrow>
                         (case py_getitem (body req) ''items'' of
                            Inl e \<Rightarrow> (Inl e, w1)
                          | Inr items \<Rightarrow>
                              (case py_first items of
                                 Inl e \<Rightarrow> (Inl e, w1)
                               | Inr m \<Rightarrow>
                                   (case py_getitem m ''statement'' of
                                      Inl e \<Rightarrow> (Inl e, w1)
                                    | Inr st \<Rightarrow> (Inr (), append_filter (exists_temp st) w1))))))
           | None \<Rightarrow> (Inl (Exception ''list_id or name required''), w)))"

section \<open>Observations used in the statements\<close>

text \<open>
  The object at \<open>r\<close> is a dictionary whose key \<open>k\<close> holds the string \<open>s\<close>; and: it
  is a dictionary that has the key \<open>k\<close>.
\<close>

definition field_has :: "json list \<Rightarrow> ref \<Rightarrow> string \<Rightarrow> string \<Rightarrow> bool" where
  "field_has h r k s = (case h ! r of JObj kvs \<Rightarrow> map_of kvs k = Some (JStr s) | _ \<Rightarrow> False)"

definition has_key :: "json list \<Rightarrow> ref \<Rightarrow> string \<Rightarrow> bool" where
  "has_key h r k = (case h ! r of JObj kvs \<Rightarrow> map_of kvs k \<noteq> None | _ \<Rightarrow> False)"

text \<open>
  A successful response whose \<^verbatim>\<open>items\<close> are \<open>vs\<close> and whose \<^verbatim>\<open>hasMore\<close> flag has the
  truth value \<open>hm\<close>.
\<close>

definition serves_page :: "response \<Rightarrow> json list \<Rightarrow> bool \<Rightarrow> bool" where
  "serves_page r vs hm =
     (ok r \<and> (case py_getitem (body r) ''items'' of
                 Inl e \<Rightarrow> False
               | Inr items \<Rightarrow> py_iter items = Inr vs)
           \<and> (case py_getitem (body r) ''hasMore'' of
                 Inl e \<Rightarrow> False
               | Inr v \<Rightarrow> truthy v = hm))"

section \<open>Example sessions\<close>

text \<open>
  The fixtures of \<^verbatim>\<open>test/test_bulk_filters.py\<close>, and a small catalog of contact
  fields in which two fields share the display name \<^verbatim>\<open>Company\<close>.
\<close>

definition GOOD_LIST_ID :: json where
  "GOOD_LIST_ID = JObj [(''name'', JStr ''Test List 1''), (''count'', JNum 1),
     (''statement'', JStr ''{{ContactList[1]}}''), (''uri'', JStr ''/contacts/lists/1''),
     (''createdBy'', JStr ''testuser''), (''createdAt'', JStr ''2010-09-29T22:06:02.7430000Z''),
     (''updatedBy'', JStr ''testuser''), (''updatedAt'', JStr ''2013-09-24T13:13:41.4370000Z'')]"

definition GOOD_LIST_NAME :: json where
  "GOOD_LIST_NAME = JObj [(''items'', JArr [GOOD_LIST_ID]), (''totalResults'', JNum 1),
     (''limit'', JNum 1000), (''offset'', JNum 0), (''count'', JNum 1), (''hasMore'', JBool False)]"

definition NO_RESULTS :: json where
  "NO_RESULTS = JObj [(''items'', JArr []), (''totalResults'', JNum 0),
     (''limit'', JNum 1000), (''offset'', JNum 0), (''count'', JNum 0), (''hasMore'', JBool False)]"

definition email_field :: json where
  "email_field = JObj [(''name'', JStr ''Email Address''), (''internalName'', JStr ''C_EmailAddress''),
     (''statement'', JStr ''Contact.Field[Email Address]'')]"

definition company_field :: json where
  "company_field = JObj [(''name'', JStr ''Company''), (''internalName'', JStr ''C_Company''),
     (''statement'', JStr ''{{Contact.Field(C_Company)}}'')]"

definition company1_field :: json where
  "company1_field = JObj [(''name'', JStr ''Company''), (''internalName'', JStr ''C_Company1''),
     (''statement'', JStr ''{{Contact.Field(C_Company1)}}'')]"

definition fields_page :: "json list \<Rightarrow> bool \<Rightarrow> json" where
  "fields_page items hm = JObj [(''items'', JArr items), (''hasMore'', JBool hm)]"

definition test_base :: string where
  "test_base = ''https://secure.eloqua.test/api/bulk/2.0''"

definition http_ok :: "json \<Rightarrow> response" where
  "http_ok b = \<lparr>ok = True, status_code = 200, message = ''OK'', body = b\<rparr>"

definition http_not_found :: response where
  "http_not_found = \<lparr>ok = False, status_code = 404, message = ''Not Found'', body = JNull\<rparr>"

text \<open>The tables of system fields: four dictionaries at the start of the store.\<close>

definition static_heap :: "json list" where
  "static_heap =
     [JObj [(''name'', JStr ''ActivityId''), (''statement'', JStr ''{{Activity.Id}}'')],
      JObj [(''name'', JStr ''ActivityType''), (''statement'', JStr ''{{Activity.Type}}'')],
      JObj [(''name'', JStr ''contactID''), (''statement'', JStr ''{{Contact.Id}}'')],
      JObj [(''name'', JStr ''accountID''), (''statement'', JStr ''{{Account.Id}}'')]]"

text \<open>
  \<open>mock_env b\<close> answers every request with status 200 and the body \<open>b\<close>, as the mock
  of the tests does.
\<close>

definition mock_env :: "json \<Rightarrow> env" where
  "mock_env b = \<lparr>bulk_base = test_base, get = (\<lambda>lg url. http_ok b),
     ACTIVITY_FIELDS = [(''EmailOpen'', [0, 1])], CONTACT_SYSTEM_FIELDS = [2],
     ACCOUNT_SYSTEM_FIELDS = [3]\<rparr>"

text \<open>A server with the list of the tests: it answers the lookup by id and the search by name.\<close>

definition list_env :: env where
  "list_env = \<lparr>bulk_base = test_base,
     get = (\<lambda>lg url.
        if url = test_base @ ''/contacts/lists/1'' then http_ok GOOD_LIST_ID
        else if url = test_base @ ''/contacts/lists?q='' @ [CHR 0x22] @ ''name=Test*List*1'' @ [CHR 0x22]
          then http_ok GOOD_LIST_NAME
        else http_not_found),
     ACTIVITY_FIELDS = [(''EmailOpen'', [0, 1])], CONTACT_SYSTEM_FIELDS = [2],
     ACCOUNT_SYSTEM_FIELDS = [3]\<rparr>"

text \<open>A server with three pages of contact fields; the first two report more pages.\<close>

definition paged_env :: env where
  "paged_env = \<lparr>bulk_base = test_base,
     get = (\<lambda>lg url.
        if url = test_base @ ''/contacts/fields?limit=1000&offset=0''
          then http_ok (fields_page [email_field] True)
        else if url = test_base @ ''/contacts/fields?limit=1000&offset=1''
          then http_ok (fields_page [company_field] True)
        else if url = test_base @ ''/contacts/fields?limit=1000&offset=2''
          then http_ok (fields_page [company1_field] False)
        else http_not_found),
     ACTIVITY_FIELDS = [(''EmailOpen'', [0, 1])], CONTACT_SYSTEM_FIELDS = [2],
     ACCOUNT_SYSTEM_FIELDS = [3]\<rparr>"

definition paged_items :: "nat \<Rightarrow> json list" where
  "paged_items k = (if k = 0 then [email_field] else if k = 1 then [company_field] else [company1_field])"

definition catalog_env :: env where
  "catalog_env = mock_env (fields_page [email_field, company_field, company1_field] False)"

definition blank_world :: world where
  "blank_world = \<lparr>job = BLANK_JOB, heap = static_heap, requests = []\<rparr>"

definition contacts_world :: world where
  "contacts_world = snd (bulk_exports ''contacts'' None None blank_world)"

definition customobjects_world :: world where
  "customobjects_world = snd (bulk_exports ''customobjects'' (Some 5) None blank_world)"

definition activities_world :: world where
  "activities_world = snd (bulk_exports ''activities'' None (Some ''EmailOpen'') blank_world)"

section \<open>Strings\<close>

lemma replace_from_char:
  "replace_from [a] [b] s = map (\<lambda>c. if c = a then b else c) s"
  by (induction s) auto

text \<open>Replacing a space by a star is a character-wise map.\<close>

lemma wildcard_map: "wildcard n = map (\<lambda>c. if c = CHR '' '' then CHR ''*'' else c) n"
  by (simp add: wildcard_def py_replace_def replace_from_char)

lemma upt_split: "[a ..< a + x] @ [a + x ..< a + x + y] = [a ..< a + (x + (y::nat))]"
  by (metis upt_add_eq_append le_add1 add.assoc)

lemma py_getitem_Inr: "py_getitem v k = Inr x \<longleftrightarrow> (\<exists>kvs. v = JObj kvs \<and> map_of kvs k = Some x)"
  by (cases v) (auto split: option.splits)

lemma extend_fields_Nil: "extend_fields [] w = w"
  by (simp add: extend_fields_def)

section \<open>Job setup\<close>

lemma setup_missing_obj_id:
  "obj \<in> set OBJECT_REQ_ID \<Longrightarrow>
   bulk_setup jt obj None act w =
     (Inl (Exception (''obj_id required for '' @ [CHR 0x27] @ obj @ [CHR 0x27])), w)"
  by (auto simp add: bulk_setup_def ELQ_OBJECTS_def OBJECT_REQ_ID_def)

lemma setup_missing_act_type:
  "obj \<in> set OBJECT_REQ_TYPE \<Longrightarrow>
   bulk_setup jt obj oid None w =
     (Inl (Exception (''act_type required for '' @ [CHR 0x27] @ obj @ [CHR 0x27])), w)"
  by (auto simp add: bulk_setup_def ELQ_OBJECTS_def OBJECT_REQ_ID_def OBJECT_REQ_TYPE_def)

lemma setup_records:
  "obj \<in> set ELQ_OBJECTS \<Longrightarrow> (obj \<in> set OBJECT_REQ_ID \<longrightarrow> oid \<noteq> None) \<Longrightarrow>
   (obj \<in> set OBJECT_REQ_TYPE \<longrightarrow> act \<noteq> None) \<Longrightarrow>
   bulk_setup jt obj oid act w =
     (Inr (), w\<lparr>job := (job w)\<lparr>job_type := Some jt, elq_object := Some obj,
                                 obj_id := oid, act_type := act\<rparr>\<rparr>)"
  by (auto simp add: bulk_setup_def)

lemma setup_unknown_kind:
  "obj \<notin> set ELQ_OBJECTS \<Longrightarrow> bulk_setup jt obj oid act w = (Inl TypeError, w)"
  by (simp add: bulk_setup_def)

text \<open>
  C5. Setup with a missing parent id or activity type raises the Exception of the
  source, and a valid setup records the four values (\<open>setup_missing_obj_id\<close>,
  \<open>setup_missing_act_type\<close>, \<open>setup_records\<close>). With an
  object kind outside \<open>ELQ_OBJECTS\<close> the call does fail, but not with the error the
  source writes: \<^verbatim>\<open>exports('foo')\<close> on a blank job ends in TypeError, raised by the
  \<^verbatim>\<open>%\<close> operator on the template \<^verbatim>\<open>'invalid elq_object \'$s\''\<close>, and the job
  stays blank.
\<close>

theorem setup_invalid_kind_type_error:
  "bulk_exports ''foo'' None None \<lparr>job = BLANK_JOB, heap = [], requests = []\<rparr> =
     (Inl TypeError, \<lparr>job = BLANK_JOB, heap = [], requests = []\<rparr>)"
  by (simp add: bulk_exports_def bulk_setup_def ELQ_OBJECTS_def)

section \<open>System fields\<close>

text \<open>
  C10, as the claim states it, fails for an empty list of names: on a blank job
  \<^verbatim>\<open>add_system_fields([])\<close> returns normally and leaves the job as it was.
\<close>

theorem system_fields_empty_names_ok:
  "add_system_fields (mock_env JNull) (Some []) blank_world = (Inr None, blank_world)"
  by (simp add: add_system_fields_def extend_fields_Nil blank_world_def BLANK_JOB_def)

text \<open>
  C10, amended. When the job's object type is neither \<^verbatim>\<open>contacts\<close> nor
  \<^verbatim>\<open>accounts\<close> (a blank job included), \<^verbatim>\<open>add_system_fields\<close> raises
  UnboundLocalError for \<open>fieldset\<close> and leaves the state untouched, unless the list
  of names is empty: then nothing reads \<open>fieldset\<close>, and the call returns \<^verbatim>\<open>None\<close>
  with the state untouched.
\<close>

theorem system_fields_unbound:
  assumes "elq_object (job w) \<noteq> Some ''contacts''" and "elq_object (job w) \<noteq> Some ''accounts''"
  shows "add_system_fields env field_input w =
     (if field_input = Some [] then (Inr None, w) else (Inl (UnboundLocalError ''fieldset''), w))"
  using assms by (simp add: add_system_fields_def extend_fields_Nil split: option.splits)

text \<open>C10, witness: no names on a blank job, and one name on an events job.\<close>

theorem system_fields_unbound_witness:
  "elq_object (job blank_world) \<noteq> Some ''contacts'' \<and>
   elq_object (job blank_world) \<noteq> Some ''accounts'' \<and>
   add_system_fields (mock_env JNull) None blank_world =
     (Inl (UnboundLocalError ''fieldset''), blank_world) \<and>
   add_system_fields (mock_env JNull) (Some [''contactID''])
       (snd (bulk_exports ''events'' (Some 7) None blank_world)) =
     (Inl (UnboundLocalError ''fieldset''), snd (bulk_exports ''events'' (Some 7) None blank_world))"
proof -
  have b: "elq_object (job blank_world) \<noteq> Some ''contacts''"
          "elq_object (job blank_world) \<noteq> Some ''accounts''"
    by (simp_all add: blank_world_def BLANK_JOB_def)
  let ?w = "snd (bulk_exports ''events'' (Some 7) None blank_world)"
  have e: "elq_object (job ?w) \<noteq> Some ''contacts''" "elq_object (job ?w) \<noteq> Some ''accounts''"
    by (simp_all add: bulk_exports_def bulk_setup_def ELQ_OBJECTS_def OBJECT_REQ_ID_def
          OBJECT_REQ_TYPE_def)
  from system_fields_unbound [OF b, of "mock_env JNull" None]
       system_fields_unbound [OF e, of "mock_env JNull" "Some [''contactID'']"] b
  show ?thesis by simp
qed

section \<open>List filters and lead score models\<close>

text \<open>
  C6. Whenever \<^verbatim>\<open>filter_exists_list\<close> succeeds, it has appended exactly one filter to
  the job and changed nothing else in it. The filter is \<^verbatim>\<open> EXISTS('\<close>, the statement
  of the resolved list, \<^verbatim>\<open>') \<close>, with one space before and one after. The resolved
  list is the body of the response to the lookup by id, or the first of the
  \<^verbatim>\<open>items\<close> of the response to the search by name. A statement that is a string is
  inserted as it is.
\<close>

theorem filter_exists_list_statement:
  assumes "filter_exists_list env list_id name w = (Inr (), w')"
  shows "\<exists>st. ((\<exists>l. list_id = Some l \<and>
                 py_getitem (body (get env (requests w) (list_url env (elq_object (job w)) l)))
                   ''statement'' = Inr st)
            \<or> (\<exists>n items m. list_id = None \<and> name = Some n \<and>
                 py_getitem (body (get env (requests w) (list_search_url env (elq_object (job w)) n)))
                   ''items'' = Inr items \<and>
                 py_first items = Inr m \<and> py_getitem m ''statement'' = Inr st))
          \<and> job w' = (job w)\<lparr>filters := filters (job w) @
                 ['' EXISTS('' @ [CHR 0x27] @ py_str st @ [CHR 0x27] @ '') '']\<rparr>
          \<and> (\<forall>s. st = JStr s \<longrightarrow>
                 last (filters (job w')) = '' EXISTS('' @ [CHR 0x27] @ s @ [CHR 0x27] @ '') '')"
  using assms
  by (auto simp add: filter_exists_list_def requests_get_def append_filter_def exists_temp_def
       split: option.splits sum.splits prod.splits)

text \<open>
  C6, witness: the test \<^verbatim>\<open>test_filter_exists_list_id\<close>. The list
  \<^verbatim>\<open>{{ContactList[1]}}\<close> gives the filter \<^verbatim>\<open> EXISTS('{{ContactList[1]}}') \<close>.
\<close>

theorem filter_exists_list_statement_witness:
  "filter_exists_list (mock_env GOOD_LIST_ID) (Some 1) None contacts_world =
     (Inr (), contacts_world\<lparr>requests := [test_base @ ''/contacts/lists/1''],
        job := (job contacts_world)\<lparr>filters :=
          ['' EXISTS('' @ [CHR 0x27] @ ''{{ContactList[1]}}'' @ [CHR 0x27] @ '') '']\<rparr>\<rparr>)
   \<and> last (filters (job (snd (filter_exists_list (mock_env GOOD_LIST_ID) (Some 1) None contacts_world))))
       = '' EXISTS('' @ [CHR 0x27] @ ''{{ContactList[1]}}'' @ [CHR 0x27] @ '') ''"
proof -
  have h: "filter_exists_list (mock_env GOOD_LIST_ID) (Some 1) None contacts_world =
     (Inr (), contacts_world\<lparr>requests := [test_base @ ''/contacts/lists/1''],
        job := (job contacts_world)\<lparr>filters :=
          ['' EXISTS('' @ [CHR 0x27] @ ''{{ContactList[1]}}'' @ [CHR 0x27] @ '') '']\<rparr>\<rparr>)"
    by code_simp
  from filter_exists_list_statement [OF h] show ?thesis using h by simp
qed

text \<open>
  C7. A lookup by name sends one request, whose URL carries the name with every space
  replaced by a star. When the search succeeds, the statement of the first item is the
  one that goes into the filter. When the first item of the search is the very record
  the lookup by id returns, the two calls end with the same result and the same job.
\<close>

theorem filter_by_name_wildcard:
  "requests (snd (filter_exists_list env None (Some n) w)) =
      requests w @ [bulk_base env @ ''/'' @ str_opt_str (elq_object (job w)) @ ''/lists?q=''
        @ [CHR 0x22] @ ''name='' @ map (\<lambda>c. if c = CHR '' '' then CHR ''*'' else c) n @ [CHR 0x22]]
   \<and> (\<forall>items m st.
        ok (get env (requests w) (list_search_url env (elq_object (job w)) n)) \<and>
        py_getitem (body (get env (requests w) (list_search_url env (elq_object (job w)) n))) ''items''
          = Inr items \<and>
        py_first items = Inr m \<and> py_getitem m ''statement'' = Inr st
        \<longrightarrow> fst (filter_exists_list env None (Some n) w) = Inr () \<and>
            job (snd (filter_exists_list env None (Some n) w)) =
              (job w)\<lparr>filters := filters (job w) @
                 ['' EXISTS('' @ [CHR 0x27] @ py_str st @ [CHR 0x27] @ '') '']\<rparr>)
   \<and> (\<forall>items l.
        ok (get env (requests w) (list_search_url env (elq_object (job w)) n)) \<and>
        py_getitem (body (get env (requests w) (list_search_url env (elq_object (job w)) n))) ''items''
          = Inr items \<and>
        ok (get env (requests w) (list_url env (elq_object (job w)) l)) \<and>
        py_first items = Inr (body (get env (requests w) (list_url env (elq_object (job w)) l)))
        \<longrightarrow> fst (filter_exists_list env None (Some n) w) = fst (filter_exists_list env (Some l) None w) \<and>
            job (snd (filter_exists_list env None (Some n) w)) =
              job (snd (filter_exists_list env (Some l) None w)))"
  by (auto simp add: filter_exists_list_def requests_get_def append_filter_def exists_temp_def
        list_search_url_def wildcard_map elq_error_def
       split: option.splits sum.splits prod.splits)

text \<open>
  C7, witness: the tests \<^verbatim>\<open>test_filter_exists_list_name\<close> and
  \<^verbatim>\<open>test_filter_exists_list_nm_call\<close>, against a server that holds the list under
  its id and under its name.
\<close>

theorem filter_by_name_wildcard_witness:
  "requests (snd (filter_exists_list list_env None (Some ''Test List 1'') contacts_world)) =
     [test_base @ ''/contacts/lists?q='' @ [CHR 0x22] @ ''name=Test*List*1'' @ [CHR 0x22]]
   \<and> fst (filter_exists_list list_env None (Some ''Test List 1'') contacts_world) = Inr ()
   \<and> filters (job (snd (filter_exists_list list_env None (Some ''Test List 1'') contacts_world))) =
       ['' EXISTS('' @ [CHR 0x27] @ ''{{ContactList[1]}}'' @ [CHR 0x27] @ '') '']
   \<and> job (snd (filter_exists_list list_env None (Some ''Test List 1'') contacts_world)) =
       job (snd (filter_exists_list list_env (Some 1) None contacts_world))"
proof -
  let ?r = "get list_env (requests contacts_world)
              (list_search_url list_env (elq_object (job contacts_world)) ''Test List 1'')"
  let ?q = "get list_env (requests contacts_world)
              (list_url list_env (elq_object (job contacts_world)) 1)"
  have 1: "ok ?r" by code_simp
  have 2: "py_getitem (body ?r) ''items'' = Inr (JArr [GOOD_LIST_ID])" by code_simp
  have 3: "py_first (JArr [GOOD_LIST_ID]) = Inr GOOD_LIST_ID" by simp
  have 4: "py_getitem GOOD_LIST_ID ''statement'' = Inr (JStr ''{{ContactList[1]}}'')" by code_simp
  have 5: "ok ?q" by code_simp
  have 6: "body ?q = GOOD_LIST_ID" by code_simp
  have 7: "requests contacts_world = []" "filters (job contacts_world) = []"
          "bulk_base list_env = test_base" "elq_object (job contacts_world) = Some ''contacts''"
    by code_simp+
  note t = filter_by_name_wildcard [where env = list_env and n = "''Test List 1''" and w = contacts_world]
  from t have a: "requests (snd (filter_exists_list list_env None (Some ''Test List 1'') contacts_world)) =
     [test_base @ ''/contacts/lists?q='' @ [CHR 0x22] @ ''name=Test*List*1'' @ [CHR 0x22]]"
    by (simp add: 7 str_opt_str_def)
  from t 1 2 3 4 have b: "fst (filter_exists_list list_env None (Some ''Test List 1'') contacts_world) = Inr () \<and>
     job (snd (filter_exists_list list_env None (Some ''Test List 1'') contacts_world)) =
       (job contacts_world)\<lparr>filters := filters (job contacts_world) @
          ['' EXISTS('' @ [CHR 0x27] @ py_str (JStr ''{{ContactList[1]}}'') @ [CHR 0x27] @ '') '']\<rparr>"
    by blast
  from t 1 2 3 5 6 have c: "job (snd (filter_exists_list list_env None (Some ''Test List 1'') contacts_world)) =
       job (snd (filter_exists_list list_env (Some 1) None contacts_world))"
    by (metis (no_types, lifting))
  from a b c show ?thesis by (simp add: 7)
qed

text \<open>
  C8, as the claim states it, fails on a search without results: no NotFoundError is
  raised. The search by name for a list that does not exist ends in IndexError, from
  \<^verbatim>\<open>req.json()['items'][0]\<close> on the empty list.
\<close>

theorem search_without_results_index_error:
  "fst (filter_exists_list (mock_env NO_RESULTS) None (Some ''No Such List'') contacts_world)
     = Inl IndexError"
  by code_simp

text \<open>
  C8, amended. \<^verbatim>\<open>filter_exists_list\<close> and \<^verbatim>\<open>add_leadscore_fields\<close> take an id or a
  name. With neither, they raise the Exception \<^verbatim>\<open>list_id or name required\<close>
  (\<^verbatim>\<open>model_id or name required\<close>) and leave the state untouched. With a name only and
  a successful search that returns no item, they raise IndexError, having sent the one
  request and changed nothing else. With both, the id is used and the name is ignored.
\<close>

theorem either_argument_errors:
  "filter_exists_list env None None w = (Inl (Exception ''list_id or name required''), w)
   \<and> add_leadscore_fields env None None w = (Inl (Exception ''model_id or name required''), w)
   \<and> (ok (get env (requests w) (list_search_url env (elq_object (job w)) n)) \<and>
      py_getitem (body (get env (requests w) (list_search_url env (elq_object (job w)) n))) ''items''
        = Inr (JArr [])
      \<longrightarrow> filter_exists_list env None (Some n) w =
            (Inl IndexError, w\<lparr>requests := requests w @ [list_search_url env (elq_object (job w)) n]\<rparr>))
   \<and> (ok (get env (requests w) (model_search_url env n)) \<and>
      py_getitem (body (get env (requests w) (model_search_url env n))) ''items'' = Inr (JArr [])
      \<longrightarrow> add_leadscore_fields env None (Some n) w =
            (Inl IndexError, w\<lparr>requests := requests w @ [model_search_url env n]\<rparr>))
   \<and> filter_exists_list env (Some l) (Some n) w = filter_exists_list env (Some l) None w
   \<and> add_leadscore_fields env (Some l) (Some n) w = add_leadscore_fields env (Some l) None w"
  by (simp add: filter_exists_list_def add_leadscore_fields_def requests_get_def elq_error_def)

text \<open>C8, witness: a server whose searches return no item.\<close>

theorem either_argument_errors_witness:
  "filter_exists_list (mock_env NO_RESULTS) None (Some ''No Such List'') contacts_world =
     (Inl IndexError, contacts_world\<lparr>requests :=
        [test_base @ ''/contacts/lists?q='' @ [CHR 0x22] @ ''name=No*Such*List'' @ [CHR 0x22]]\<rparr>)
   \<and> add_leadscore_fields (mock_env NO_RESULTS) None (Some ''No Such Model'') contacts_world =
     (Inl IndexError, contacts_world\<lparr>requests :=
        [test_base @ ''/contacts/scoring/models?q='' @ [CHR 0x22] @ ''name=No*Such*Model'' @ [CHR 0x22]]\<rparr>)"
proof -
  let ?e = "mock_env NO_RESULTS"
  have 1: "ok (get ?e (requests contacts_world)
              (list_search_url ?e (elq_object (job contacts_world)) ''No Such List''))"
    by code_simp
  have 2: "py_getitem (body (get ?e (requests contacts_world)
              (list_search_url ?e (elq_object (job contacts_world)) ''No Such List''))) ''items''
           = Inr (JArr [])"
    by code_simp
  have 3: "ok (get ?e (requests contacts_world) (model_search_url ?e ''No Such Model''))"
    by code_simp
  have 4: "py_getitem (body (get ?e (requests contacts_world)
              (model_search_url ?e ''No Such Model''))) ''items'' = Inr (JArr [])"
    by code_simp
  have 5: "requests contacts_world = []" by code_simp
  have 6: "list_search_url ?e (elq_object (job contacts_world)) ''No Such List'' =
             test_base @ ''/contacts/lists?q='' @ [CHR 0x22] @ ''name=No*Such*List'' @ [CHR 0x22]"
    by code_simp
  have 7: "model_search_url ?e ''No Such Model'' =
             test_base @ ''/contacts/scoring/models?q='' @ [CHR 0x22] @ ''name=No*Such*Model'' @ [CHR 0x22]"
    by code_simp
  from either_argument_errors [where env = ?e and w = contacts_world and n = "''No Such List''"] 1 2
  have a: "filter_exists_list ?e None (Some ''No Such List'') contacts_world =
     (Inl IndexError, contacts_world\<lparr>requests := requests contacts_world @
        [list_search_url ?e (elq_object (job contacts_world)) ''No Such List'']\<rparr>)"
    by blast
  from either_argument_errors [where env = ?e and w = contacts_world and n = "''No Such Model''"] 3 4
  have b: "add_leadscore_fields ?e None (Some ''No Such Model'') contacts_world =
     (Inl IndexError, contacts_world\<lparr>requests := requests contacts_world @
        [model_search_url ?e ''No Such Model'']\<rparr>)"
    by blast
  from a b show ?thesis by (simp add: 5 6 7)
qed

section \<open>The field catalog\<close>

text \<open>One round of the loop, when the server serves a page.\<close>

lemma loop_step:
  assumes "brace_free ub" and "serves_page (get env (requests w) (offset_url ub k)) vs hm"
  shows "get_fields_loop env ub k flds w =
     (if hm
      then get_fields_loop env ub (k + 1) (flds @ [length (heap w) ..< length (heap w) + length vs])
             (w\<lparr>requests := requests w @ [offset_url ub k], heap := heap w @ vs\<rparr>)
      else Some (Inr (flds @ [length (heap w) ..< length (heap w) + length vs]),
             w\<lparr>requests := requests w @ [offset_url ub k], heap := heap w @ vs\<rparr>))"
  using assms
  by (subst get_fields_loop.simps)
     (auto simp add: format_offset_def requests_get_def elq_error_def alloc_def
        serves_page_def split: sum.splits)

text \<open>
  The loop from offset \<open>k0\<close> on: when the pages \<open>k0\<close> to \<open>n\<close> are served and page
  \<open>n\<close> is the first without more, the loop ends after page \<open>n\<close>. Induction on the
  number of pages left.
\<close>

lemma loop_pages:
  assumes bf: "brace_free ub"
  shows "k0 \<le> n \<Longrightarrow>
     (\<forall>k. k0 \<le> k \<and> k \<le> n \<longrightarrow>
        serves_page (get env (requests w @ map (offset_url ub) [k0..<k]) (offset_url ub k))
          (pg k) (k < n)) \<Longrightarrow>
     get_fields_loop env ub k0 flds w =
       Some (Inr (flds @ [length (heap w) ..< length (heap w) + length (concat (map pg [k0..<Suc n]))]),
             w\<lparr>requests := requests w @ map (offset_url ub) [k0..<Suc n],
                heap := heap w @ concat (map pg [k0..<Suc n])\<rparr>)"
proof (induction "n - k0" arbitrary: k0 flds w)
  case 0
  then have eq: "k0 = n" by simp
  from 0(3) have sp: "serves_page (get env (requests w) (offset_url ub n)) (pg n) False"
    using eq by auto
  show ?case unfolding eq
    by (subst loop_step [OF bf sp]) simp
next
  case (Suc d)
  then have lt: "k0 < n" by simp
  from Suc(4) lt have sp: "serves_page (get env (requests w) (offset_url ub k0)) (pg k0) True"
    by (auto dest: spec [of _ k0])
  let ?w1 = "w\<lparr>requests := requests w @ [offset_url ub k0], heap := heap w @ pg k0\<rparr>"
  have d: "d = n - Suc k0" using Suc(2) by simp
  have le: "Suc k0 \<le> n" using lt by simp
  have pages: "\<forall>k. Suc k0 \<le> k \<and> k \<le> n \<longrightarrow>
        serves_page (get env (requests ?w1 @ map (offset_url ub) [Suc k0..<k]) (offset_url ub k))
          (pg k) (k < n)"
  proof (intro allI impI)
    fix k assume k: "Suc k0 \<le> k \<and> k \<le> n"
    then have u: "[k0..<k] = k0 # [Suc k0..<k]" by (simp add: upt_conv_Cons)
    from Suc(4) k
    have "serves_page (get env (requests w @ map (offset_url ub) [k0..<k]) (offset_url ub k))
            (pg k) (k < n)"
      by simp
    then show "serves_page (get env (requests ?w1 @ map (offset_url ub) [Suc k0..<k])
                 (offset_url ub k)) (pg k) (k < n)"
      by (simp add: u)
  qed
  have up: "[k0..<Suc n] = k0 # [Suc k0..<Suc n]" using lt by (simp add: upt_conv_Cons)
  show ?case
    unfolding up
    by (subst loop_step [OF bf sp]) (simp add: Suc(1) [OF d le pages] upt_split del: upt_Suc)
qed

text \<open>
  C2. Without an object kind, \<^verbatim>\<open>get_fields\<close> takes kind, parent id and activity type
  from the job. For activities it returns the entry of \<open>ACTIVITY_FIELDS\<close> under the
  activity type and leaves the state, the list of requests included, as it was. For any
  other kind it requests the page at offset 0, then 1, then 2, and so on, for as long
  as the page just read has a true \<^verbatim>\<open>hasMore\<close>: when the pages 0 to \<open>n\<close> are served
  and page \<open>n\<close> is the first whose flag is false, it returns after exactly the
  requests for the offsets 0 to \<open>n\<close>, and its result is the items of the pages 0 to
  \<open>n\<close>, in this order, as new objects of the store.
\<close>

theorem get_fields_pagination:
  "get_fields env None oid act w =
     get_fields env (elq_object (job w)) (obj_id (job w)) (act_type (job w)) w
   \<and> (map_of (ACTIVITY_FIELDS env) a = Some rs
      \<longrightarrow> get_fields env (Some ''activities'') oid (Some a) w = Some (Inr rs, w))
   \<and> (ob \<noteq> ''activities'' \<and> brace_free (fields_url_base env (Some ob) oid) \<and>
      (\<forall>k\<le>n. serves_page
          (get env (requests w @ map (offset_url (fields_url_base env (Some ob) oid)) [0..<k])
             (offset_url (fields_url_base env (Some ob) oid) k))
          (pg k) (k < n))
      \<longrightarrow> get_fields env (Some ob) oid act w =
            Some (Inr [length (heap w) ..< length (heap w) + length (concat (map pg [0..<Suc n]))],
                  w\<lparr>requests := requests w @
                        map (offset_url (fields_url_base env (Some ob) oid)) [0..<Suc n],
                     heap := heap w @ concat (map pg [0..<Suc n])\<rparr>))"
proof (intro conjI impI)
  show "get_fields env None oid act w =
     get_fields env (elq_object (job w)) (obj_id (job w)) (act_type (job w)) w"
    by (simp add: get_fields_def)
next
  assume "map_of (ACTIVITY_FIELDS env) a = Some rs"
  then show "get_fields env (Some ''activities'') oid (Some a) w = Some (Inr rs, w)"
    by (simp add: get_fields_def)
next
  let ?ub = "fields_url_base env (Some ob) oid"
  assume h: "ob \<noteq> ''activities'' \<and> brace_free ?ub \<and>
      (\<forall>k\<le>n. serves_page (get env (requests w @ map (offset_url ?ub) [0..<k]) (offset_url ?ub k))
          (pg k) (k < n))"
  then have bf: "brace_free ?ub" by simp
  from h have pages: "\<forall>k. 0 \<le> k \<and> k \<le> n \<longrightarrow>
      serves_page (get env (requests w @ map (offset_url ?ub) [0..<k]) (offset_url ?ub k))
          (pg k) (k < n)"
    by simp
  have "get_fields env (Some ob) oid act w = get_fields_loop env ?ub 0 [] w"
    using h by (simp add: get_fields_def)
  also have "\<dots> = Some (Inr ([] @ [length (heap w) ..< length (heap w) + length (concat (map pg [0..<Suc n]))]),
                  w\<lparr>requests := requests w @ map (offset_url ?ub) [0..<Suc n],
                     heap := heap w @ concat (map pg [0..<Suc n])\<rparr>)"
    by (rule loop_pages [OF bf _ pages]) simp
  finally show "get_fields env (Some ob) oid act w =
            Some (Inr [length (heap w) ..< length (heap w) + length (concat (map pg [0..<Suc n]))],
                  w\<lparr>requests := requests w @ map (offset_url ?ub) [0..<Suc n],
                     heap := heap w @ concat (map pg [0..<Suc n])\<rparr>)"
    by simp
qed

text \<open>
  C2, witness: a server with three pages, the first two with a true \<^verbatim>\<open>hasMore\<close>.
  \<^verbatim>\<open>get_fields()\<close> on a contacts job sends the requests for the offsets 0, 1 and 2
  and returns the three fields in the order of the pages; for the activity type
  \<^verbatim>\<open>EmailOpen\<close> it returns the two entries of the table and sends nothing.
\<close>

theorem get_fields_pagination_witness:
  "get_fields paged_env None None None contacts_world =
     Some (Inr [4, 5, 6],
           contacts_world\<lparr>requests :=
               [test_base @ ''/contacts/fields?limit=1000&offset=0'',
                test_base @ ''/contacts/fields?limit=1000&offset=1'',
                test_base @ ''/contacts/fields?limit=1000&offset=2''],
             heap := static_heap @ [email_field, company_field, company1_field]\<rparr>)
   \<and> get_fields paged_env (Some ''activities'') None (Some ''EmailOpen'') contacts_world =
       Some (Inr [0, 1], contacts_world)"
proof -
  let ?ub = "fields_url_base paged_env (Some ''contacts'') None"
  have bf: "brace_free ?ub" by code_simp
  have p0: "serves_page (get paged_env (requests contacts_world @ map (offset_url ?ub) [0..<0])
              (offset_url ?ub 0)) (paged_items 0) (0 < (2::nat))"
    by code_simp
  have p1: "serves_page (get paged_env (requests contacts_world @ map (offset_url ?ub) [0..<1])
              (offset_url ?ub 1)) (paged_items 1) (1 < (2::nat))"
    by code_simp
  have p2: "serves_page (get paged_env (requests contacts_world @ map (offset_url ?ub) [0..<2])
              (offset_url ?ub 2)) (paged_items 2) (2 < (2::nat))"
    by code_simp
  have pages: "\<forall>k\<le>2. serves_page
      (get paged_env (requests contacts_world @ map (offset_url ?ub) [0..<k]) (offset_url ?ub k))
      (paged_items k) (k < 2)"
  proof (intro allI impI)
    fix k :: nat
    assume "k \<le> 2"
    then consider "k = 0" | "k = 1" | "k = 2" by linarith
    then show "serves_page
      (get paged_env (requests contacts_world @ map (offset_url ?ub) [0..<k]) (offset_url ?ub k))
      (paged_items k) (k < 2)"
      using p0 p1 p2 by cases simp_all
  qed
  have act: "map_of (ACTIVITY_FIELDS paged_env) ''EmailOpen'' = Some [0, 1]" by code_simp
  have j: "elq_object (job contacts_world) = Some ''contacts''"
          "obj_id (job contacts_world) = None" "act_type (job contacts_world) = None"
    by code_simp+
  have ne: "''contacts'' \<noteq> ''activities''" by simp
  note t = get_fields_pagination [where env = paged_env and w = contacts_world and oid = None
      and act = None and a = "''EmailOpen''" and rs = "[0, 1]" and ob = "''contacts''" and n = 2
      and pg = paged_items]
  from t have a: "get_fields paged_env None None None contacts_world =
      get_fields paged_env (Some ''contacts'') None None contacts_world"
    by (simp add: j)
  from t ne bf pages
  have b: "get_fields paged_env (Some ''contacts'') None None contacts_world =
      Some (Inr [length (heap contacts_world) ..<
                   length (heap contacts_world) + length (concat (map paged_items [0..<Suc 2]))],
            contacts_world\<lparr>requests := requests contacts_world @ map (offset_url ?ub) [0..<Suc 2],
               heap := heap contacts_world @ concat (map paged_items [0..<Suc 2])\<rparr>)"
    by blast
  from t act
  have c: "get_fields paged_env (Some ''activities'') None (Some ''EmailOpen'') contacts_world =
      Some (Inr [0, 1], contacts_world)"
    by blast
  have v: "[length (heap contacts_world) ..<
             length (heap contacts_world) + length (concat (map paged_items [0..<Suc 2]))] = [4, 5, 6]"
          "requests contacts_world @ map (offset_url ?ub) [0..<Suc 2] =
             [test_base @ ''/contacts/fields?limit=1000&offset=0'',
              test_base @ ''/contacts/fields?limit=1000&offset=1'',
              test_base @ ''/contacts/fields?limit=1000&offset=2'']"
          "heap contacts_world @ concat (map paged_items [0..<Suc 2]) =
             static_heap @ [email_field, company_field, company1_field]"
    by code_simp+
  from a b c show ?thesis by (simp only: v)
qed

text \<open>
  What the loop leaves alone: the job and the objects that were in the store. Its
  result holds the references it was given and references to new objects only.
\<close>

lemma get_fields_loop_frame:
  assumes "get_fields_loop env ub k flds w = Some y"
  shows "job (snd y) = job w \<and> length (heap w) \<le> length (heap (snd y)) \<and>
         take (length (heap w)) (heap (snd y)) = heap w \<and>
         (\<forall>out. fst y = Inr out \<longrightarrow>
            set out \<subseteq> set flds \<union> {length (heap w) ..< length (heap (snd y))})"
  using assms
proof (induction env ub k flds w y
    rule: get_fields_loop.raw_induct [rotated, consumes 1, case_names step])
  case (step loop env ub k flds w y)
  show ?case
  proof (cases "format_offset ub k")
    case (Inl e)
    with step(2) show ?thesis by auto
  next
    case (Inr url)
    let ?req = "get env (requests w) url"
    show ?thesis
    proof (cases "elq_error ?req")
      case (Inl e)
      with step(2) Inr show ?thesis by (auto simp: requests_get_def)
    next
      case ok: (Inr u)
      show ?thesis
      proof (cases "py_getitem (body ?req) ''items''")
        case (Inl e)
        with step(2) Inr ok show ?thesis by (auto simp: requests_get_def)
      next
        case items: (Inr items)
        show ?thesis
        proof (cases "py_iter items")
          case (Inl e)
          with step(2) Inr ok items show ?thesis by (auto simp: requests_get_def)
        next
          case vs: (Inr vs)
          let ?refs = "[length (heap w) ..< length (heap w) + length vs]"
          let ?w2 = "w\<lparr>requests := requests w @ [url], heap := heap w @ vs\<rparr>"
          show ?thesis
          proof (cases "py_getitem (body ?req) ''hasMore''")
            case (Inl e)
            with step(2) Inr ok items vs show ?thesis by (auto simp: requests_get_def alloc_def)
          next
            case hm: (Inr has_more)
            show ?thesis
            proof (cases "truthy has_more")
              case False
              with step(2) Inr ok items vs hm show ?thesis
                by (auto simp: requests_get_def alloc_def)
            next
              case True
              with step(2) Inr ok items vs hm
              have rec: "loop env ub (k + 1) (flds @ ?refs) ?w2 = Some y"
                by (auto simp: requests_get_def alloc_def)
              from step(1) [OF rec]
              have j: "job (snd y) = job w"
                and l: "length (heap w) + length vs \<le> length (heap (snd y))"
                and t: "take (length (heap w) + length vs) (heap (snd y)) = heap w @ vs"
                and s: "\<forall>out. fst y = Inr out \<longrightarrow>
                   set out \<subseteq> set (flds @ ?refs) \<union>
                     {length (heap w) + length vs ..< length (heap (snd y))}"
                by simp_all
              have "take (length (heap w)) (heap (snd y)) =
                    take (length (heap w)) (take (length (heap w) + length vs) (heap (snd y)))"
                by (simp add: min_def)
              also have "\<dots> = heap w" by (simp only: t) simp
              finally have t1: "take (length (heap w)) (heap (snd y)) = heap w" .
              have s1: "\<forall>out. fst y = Inr out \<longrightarrow>
                   set out \<subseteq> set flds \<union> {length (heap w) ..< length (heap (snd y))}"
              proof (intro allI impI)
                fix out
                assume "fst y = Inr out"
                with s have "set out \<subseteq> set flds \<union>
                    ({length (heap w) ..< length (heap w) + length vs} \<union>
                     {length (heap w) + length vs ..< length (heap (snd y))})"
                  by (simp add: Un_assoc)
                moreover have "{length (heap w) ..< length (heap w) + length vs} \<union>
                     {length (heap w) + length vs ..< length (heap (snd y))}
                     \<subseteq> {length (heap w) ..< length (heap (snd y))}"
                  using l by auto
                ultimately show "set out \<subseteq> set flds \<union> {length (heap w) ..< length (heap (snd y))}"
                  by blast
              qed
              from j l t1 s1 show ?thesis by simp
            qed
          qed
        qed
      qed
    qed
  qed
qed

lemma get_fields_frame:
  assumes "get_fields env obj oid act w = Some (res, w1)"
  shows "job w1 = job w \<and> length (heap w) \<le> length (heap w1) \<and>
         take (length (heap w)) (heap w1) = heap w"
  using assms
  by (auto simp add: get_fields_def split: if_splits option.splits dest!: get_fields_loop_frame)


section \<open>Field resolution\<close>

text \<open>When the test of the inner loop raises nothing, it is the test on the two keys.\<close>

lemma field_matches_Inr:
  "field_matches h bi n r = Inr b \<Longrightarrow>
   b = ((bi \<and> field_has h r ''internalName'' n) \<or> field_has h r ''name'' n)"
  by (auto simp add: field_matches_def field_has_def py_getitem_Inr
        split: if_splits sum.splits json.splits option.splits)

lemma field_matches_wf:
  "has_key h r ''name'' \<Longrightarrow> (bi \<longrightarrow> has_key h r ''internalName'') \<Longrightarrow>
   field_matches h bi n r = Inr ((bi \<and> field_has h r ''internalName'' n) \<or> field_has h r ''name'' n)"
  by (auto simp add: field_matches_def field_has_def has_key_def
        split: if_splits sum.splits json.splits)

lemma scan_fields_Inr:
  "scan_fields h bi n flds out m = Inr (out', m') \<Longrightarrow>
   out' = out @ filter (\<lambda>r. (bi \<and> field_has h r ''internalName'' n) \<or> field_has h r ''name'' n) flds \<and>
   m' = (m \<or> (\<exists>r\<in>set flds. (bi \<and> field_has h r ''internalName'' n) \<or> field_has h r ''name'' n))"
proof (induction flds arbitrary: out m)
  case Nil
  then show ?case by simp
next
  case (Cons r rs)
  from Cons.prems obtain b where b: "field_matches h bi n r = Inr b"
    by (auto split: sum.splits)
  note eq = field_matches_Inr [OF b]
  show ?case
  proof (cases b)
    case True
    with Cons.prems b have "scan_fields h bi n rs (out @ [r]) True = Inr (out', m')" by simp
    from Cons.IH [OF this] True eq show ?thesis by auto
  next
    case False
    with Cons.prems b have "scan_fields h bi n rs out m = Inr (out', m')" by simp
    from Cons.IH [OF this] False eq show ?thesis by auto
  qed
qed

lemma scan_fields_wf:
  "\<forall>r\<in>set flds. has_key h r ''name'' \<and> (bi \<longrightarrow> has_key h r ''internalName'') \<Longrightarrow>
   scan_fields h bi n flds out m =
     Inr (out @ filter (\<lambda>r. (bi \<and> field_has h r ''internalName'' n) \<or> field_has h r ''name'' n) flds,
          m \<or> (\<exists>r\<in>set flds. (bi \<and> field_has h r ''internalName'' n) \<or> field_has h r ''name'' n))"
proof (induction flds arbitrary: out m)
  case Nil
  then show ?case by simp
next
  case (Cons r rs)
  then have fm: "field_matches h bi n r =
      Inr ((bi \<and> field_has h r ''internalName'' n) \<or> field_has h r ''name'' n)"
    by (simp add: field_matches_wf)
  from Cons have IH: "\<And>out m. scan_fields h bi n rs out m =
     Inr (out @ filter (\<lambda>r. (bi \<and> field_has h r ''internalName'' n) \<or> field_has h r ''name'' n) rs,
          m \<or> (\<exists>r\<in>set rs. (bi \<and> field_has h r ''internalName'' n) \<or> field_has h r ''name'' n))"
    by simp
  show ?case by (auto simp add: fm IH)
qed

lemma resolve_names_Inr:
  "resolve_names h bi flds names out = Inr out' \<Longrightarrow>
   out' = out @ concat (map (\<lambda>n. filter (\<lambda>r. (bi \<and> field_has h r ''internalName'' n)
                                  \<or> field_has h r ''name'' n) flds) names)"
proof (induction names arbitrary: out)
  case Nil
  then show ?case by simp
next
  case (Cons n ns)
  from Cons.prems obtain o1 m1 where s: "scan_fields h bi n flds out False = Inr (o1, m1)"
    by (auto split: sum.splits)
  with Cons.prems have r: "resolve_names h bi flds ns o1 = Inr out'"
    by (auto split: if_splits)
  from scan_fields_Inr [OF s] Cons.IH [OF r] show ?case by simp
qed

lemma resolve_names_not_found:
  assumes wf: "\<forall>r\<in>set flds. has_key h r ''name'' \<and> (bi \<longrightarrow> has_key h r ''internalName'')"
    and miss: "\<forall>r\<in>set flds. \<not> ((bi \<and> field_has h r ''internalName'' x) \<or> field_has h r ''name'' x)"
  shows "\<forall>n\<in>set pre. \<exists>r\<in>set flds. (bi \<and> field_has h r ''internalName'' n) \<or> field_has h r ''name'' n \<Longrightarrow>
     resolve_names h bi flds (pre @ x # post) out = Inl (Exception (''field not found: '' @ x))"
proof (induction pre arbitrary: out)
  case Nil
  from miss show ?case by (simp add: scan_fields_wf [OF wf])
next
  case (Cons n ns)
  then show ?case by (simp add: scan_fields_wf [OF wf])
qed

text \<open>A failed \<^verbatim>\<open>add_fields\<close>, whatever the exception, leaves the job as it was.\<close>

lemma add_fields_failure_keeps_job:
  assumes "add_fields env field_input w = Some (Inl e, w')"
  shows "job w' = job w"
  using assms
  by (auto simp add: add_fields_def split: option.splits sum.splits prod.splits
        dest: get_fields_frame)

text \<open>
  C3. When \<^verbatim>\<open>add_fields\<close> is given names and succeeds, the fields it appends to the
  job are, name after name in the order given, all the fields of the catalog that match
  the name, in the order of the catalog. A field matches a name when its
  \<^verbatim>\<open>internalName\<close> or its \<^verbatim>\<open>name\<close> is that very string; for an activities job only
  the \<^verbatim>\<open>name\<close> counts. Several matches for one name are all appended.
\<close>

theorem add_fields_appends_every_match:
  assumes "get_fields env None None None w = Some (Inr flds, w1)"
      and "add_fields env (Some names) w = Some (Inr res, w')"
  shows "job_fields (job w') = job_fields (job w) @
           concat (map (\<lambda>field_name.
             filter (\<lambda>r. (elq_object (job w) \<noteq> Some ''activities'' \<and>
                           field_has (heap w1) r ''internalName'' field_name)
                        \<or> field_has (heap w1) r ''name'' field_name) flds) names)"
proof -
  from get_fields_frame [OF assms(1)] have j: "job w1 = job w" by simp
  from assms obtain out
    where r: "resolve_names (heap w1) (elq_object (job w1) \<noteq> Some ''activities'') flds names [] = Inr out"
      and w': "w' = extend_fields out w1"
    by (auto simp add: add_fields_def split: sum.splits)
  from resolve_names_Inr [OF r] w' j show ?thesis
    by (simp add: extend_fields_def)
qed

text \<open>
  C3, witness. In the catalog two fields carry the display name \<^verbatim>\<open>Company\<close>:
  \<^verbatim>\<open>add_fields(['Company', 'C_EmailAddress'])\<close> appends both and then the field with
  that internal name. On an activities job, \<^verbatim>\<open>add_fields(['ActivityType'])\<close>
  appends the field of the table with that name.
\<close>

theorem add_fields_appends_every_match_witness:
  "job_fields (job (snd (the (add_fields catalog_env (Some [''Company'', ''C_EmailAddress''])
      contacts_world)))) = [5, 6, 4]
   \<and> job_fields (job (snd (the (add_fields catalog_env (Some [''ActivityType''])
      activities_world)))) = [1]"
proof -
  let ?w1 = "contacts_world\<lparr>
      requests := [test_base @ ''/contacts/fields?limit=1000&offset=0''],
      heap := static_heap @ [email_field, company_field, company1_field]\<rparr>"
  let ?w2 = "?w1\<lparr>job := (job contacts_world)\<lparr>job_fields := [5, 6, 4]\<rparr>\<rparr>"
  have g: "get_fields catalog_env None None None contacts_world = Some (Inr [4, 5, 6], ?w1)"
    by code_simp
  have a: "add_fields catalog_env (Some [''Company'', ''C_EmailAddress'']) contacts_world =
      Some (Inr None, ?w2)"
    by code_simp
  let ?w3 = "activities_world\<lparr>job := (job activities_world)\<lparr>job_fields := [1]\<rparr>\<rparr>"
  have g2: "get_fields catalog_env None None None activities_world = Some (Inr [0, 1], activities_world)"
    by code_simp
  have a2: "add_fields catalog_env (Some [''ActivityType'']) activities_world = Some (Inr None, ?w3)"
    by code_simp
  from add_fields_appends_every_match [OF g a] add_fields_appends_every_match [OF g2 a2] a a2
  show ?thesis by simp
qed

text \<open>
  C4. Let the catalog be fetched, and let every field of it have the keys that the test
  reads. If a name matches no field of the catalog, and every name before it matches
  one, then \<^verbatim>\<open>add_fields\<close> raises the Exception \<^verbatim>\<open>field not found: \<close> followed by
  that name, and the job is the job from before the call: nothing of this call is in
  \<open>job_fields\<close>, and what earlier calls appended is still there.
\<close>

theorem add_fields_not_found:
  assumes "get_fields env None None None w = Some (Inr flds, w1)"
      and "\<forall>r\<in>set flds. has_key (heap w1) r ''name'' \<and>
             (elq_object (job w) \<noteq> Some ''activities'' \<longrightarrow> has_key (heap w1) r ''internalName'')"
      and "\<forall>n\<in>set pre. \<exists>r\<in>set flds.
             (elq_object (job w) \<noteq> Some ''activities'' \<and> field_has (heap w1) r ''internalName'' n)
             \<or> field_has (heap w1) r ''name'' n"
      and "\<forall>r\<in>set flds.
             \<not> ((elq_object (job w) \<noteq> Some ''activities'' \<and>
                   field_has (heap w1) r ''internalName'' field_name)
                \<or> field_has (heap w1) r ''name'' field_name)"
  shows "add_fields env (Some (pre @ field_name # post)) w =
           Some (Inl (Exception (''field not found: '' @ field_name)), w1)
         \<and> job w1 = job w"
proof -
  from get_fields_frame [OF assms(1)] have j: "job w1 = job w" by simp
  have "resolve_names (heap w1) (elq_object (job w1) \<noteq> Some ''activities'') flds
          (pre @ field_name # post) [] = Inl (Exception (''field not found: '' @ field_name))"
    using assms(2-4) unfolding j by (intro resolve_names_not_found) auto
  with assms(1) j show ?thesis by (simp add: add_fields_def)
qed

text \<open>
  C4, witness. After \<^verbatim>\<open>add_fields(['Company'])\<close> has appended two fields,
  \<^verbatim>\<open>add_fields(['Email Address', 'nonexistent'])\<close> raises
  \<^verbatim>\<open>field not found: nonexistent\<close>, and the job still holds those two fields and no
  other.
\<close>

theorem add_fields_not_found_witness:
  "fst (the (add_fields catalog_env (Some [''Email Address'', ''nonexistent''])
        (snd (the (add_fields catalog_env (Some [''Company'']) contacts_world)))))
     = Inl (Exception ''field not found: nonexistent'')
   \<and> job_fields (job (snd (the (add_fields catalog_env (Some [''Email Address'', ''nonexistent''])
        (snd (the (add_fields catalog_env (Some [''Company'']) contacts_world))))))) = [5, 6]"
proof -
  let ?w = "contacts_world\<lparr>
      requests := [test_base @ ''/contacts/fields?limit=1000&offset=0''],
      heap := static_heap @ [email_field, company_field, company1_field],
      job := (job contacts_world)\<lparr>job_fields := [5, 6]\<rparr>\<rparr>"
  let ?w1 = "?w\<lparr>
      requests := [test_base @ ''/contacts/fields?limit=1000&offset=0'',
                   test_base @ ''/contacts/fields?limit=1000&offset=0''],
      heap := static_heap @ [email_field, company_field, company1_field,
                             email_field, company_field, company1_field]\<rparr>"
  have a: "add_fields catalog_env (Some [''Company'']) contacts_world = Some (Inr None, ?w)"
    by code_simp
  have g: "get_fields catalog_env None None None ?w = Some (Inr [7, 8, 9], ?w1)"
    by code_simp
  have wf: "\<forall>r\<in>set [7, 8, 9]. has_key (heap ?w1) r ''name'' \<and>
             (elq_object (job ?w) \<noteq> Some ''activities'' \<longrightarrow> has_key (heap ?w1) r ''internalName'')"
    by code_simp
  have pre: "\<forall>n\<in>set [''Email Address'']. \<exists>r\<in>set [7, 8, 9].
             (elq_object (job ?w) \<noteq> Some ''activities'' \<and> field_has (heap ?w1) r ''internalName'' n)
             \<or> field_has (heap ?w1) r ''name'' n"
    by code_simp
  have miss: "\<forall>r\<in>set [7, 8, 9].
             \<not> ((elq_object (job ?w) \<noteq> Some ''activities'' \<and>
                   field_has (heap ?w1) r ''internalName'' ''nonexistent'')
                \<or> field_has (heap ?w1) r ''name'' ''nonexistent'')"
    by code_simp
  have jf: "job_fields (job ?w) = [5, 6]" by simp
  from add_fields_not_found [OF g wf pre miss, of "[]"] a jf
  show ?thesis by simp
qed

section \<open>Linked fields\<close>




text \<open>
  The rules of the rewrite, for one field whose statement is a string: the pair of
  linked kind and current kind selects the substitution, and any other pair leaves the
  store as it is.
\<close>

lemma rewrite_field_rules:
  assumes "r < length h" and "h ! r = JObj kvs" and "map_of kvs ''statement'' = Some (JStr s)"
  shows "rewrite_field ''contacts'' (Some ''customobjects'') oid h r =
           Inr (h[r := JObj (dict_set ''statement''
                  (JStr (py_replace s ''Contact.'' (''CustomObject['' @ str_opt_int oid @ ''].Contact.'')))
                  kvs)])"
    and "rewrite_field ''contacts'' (Some ''events'') oid h r =
           Inr (h[r := JObj (dict_set ''statement''
                  (JStr (py_replace s ''Contact.'' (''Event['' @ str_opt_int oid @ ''].Contact.'')))
                  kvs)])"
    and "rewrite_field ''accounts'' cur oid h r =
           Inr (h[r := JObj (dict_set ''statement''
                  (JStr (py_replace s ''Account.'' ''Contact.Account.'')) kvs)])"
    and "lnk \<noteq> ''accounts'' \<Longrightarrow>
         (lnk = ''contacts'' \<longrightarrow> cur \<noteq> Some ''customobjects'' \<and> cur \<noteq> Some ''events'') \<Longrightarrow>
         rewrite_field lnk cur oid h r = Inr h"
  using assms by (auto simp add: rewrite_field_def replace_statement_def)

text \<open>
  The example of the specification: on a custom object job with parent id 5,
  \<^verbatim>\<open>add_linked_fields('contacts', ['Email Address'])\<close> turns
  \<^verbatim>\<open>Contact.Field[Email Address]\<close> into
  \<^verbatim>\<open>CustomObject[5].Contact.Field[Email Address]\<close>.
\<close>

lemma linked_fields_example:
  "add_linked_fields catalog_env ''contacts'' [''Email Address''] customobjects_world =
     Some (Inr (), customobjects_world\<lparr>
       requests := [test_base @ ''/contacts/fields?limit=1000&offset=0''],
       heap := static_heap @
         [JObj [(''name'', JStr ''Email Address''), (''internalName'', JStr ''C_EmailAddress''),
                (''statement'', JStr ''CustomObject[5].Contact.Field[Email Address]'')],
          company_field, company1_field],
       job := (job customobjects_world)\<lparr>job_fields := [4]\<rparr>\<rparr>)"
  by code_simp

text \<open>
  C1. Each pass of the rewrite loop is the substitution the claim gives
  (\<open>rewrite_field_rules\<close>), and a field that is resolved once ends with that
  substitution applied once (\<open>linked_fields_example\<close>). A field that is resolved twice
  does not: \<open>fields_output\<close> then holds the same dictionary twice, and the loop
  rewrites it in place twice. With the names \<^verbatim>\<open>Email Address\<close> and
  \<^verbatim>\<open>C_EmailAddress\<close>, which are the display name and the internal name of one
  field, the statement \<^verbatim>\<open>Contact.Field[Email Address]\<close> becomes
  \<^verbatim>\<open>CustomObject[5].CustomObject[5].Contact.Field[Email Address]\<close>, and the job
  holds that one field twice.
\<close>

theorem linked_field_resolved_twice_rewritten_twice:
  "add_linked_fields catalog_env ''contacts'' [''Email Address'', ''C_EmailAddress'']
       customobjects_world =
     Some (Inr (), customobjects_world\<lparr>
       requests := [test_base @ ''/contacts/fields?limit=1000&offset=0''],
       heap := static_heap @
         [JObj [(''name'', JStr ''Email Address''), (''internalName'', JStr ''C_EmailAddress''),
                (''statement'',
                 JStr ''CustomObject[5].CustomObject[5].Contact.Field[Email Address]'')],
          company_field, company1_field],
       job := (job customobjects_world)\<lparr>job_fields := [4, 4]\<rparr>\<rparr>)"
  by code_simp




end
